theory Spec2Isabelle
  imports Main "HOL-Library.Word" "HOL-Library.Product_Lexorder" "HOL-Library.Multiset"
begin

section \<open>Python values used by \<open>catalog/models.py\<close>\<close>

text \<open>
  The exceptions that the modelled code can raise. \<open>AttributeError\<close> is what
  \<open>None.title\<close> raises; \<open>ValueError\<close> and \<open>IndexError\<close> are the failures of
  \<open>str.format\<close>; \<open>NoReverseMatch\<close> is the failure of \<open>django.urls.reverse\<close>.
\<close>

datatype error = AttributeError | ValueError | IndexError | NoReverseMatch

text \<open>
  A \<open>datetime.date\<close> is the triple (year, month, day); Python compares two dates by
  comparing these triples lexicographically, which is the order of
  \<open>Product_Lexorder\<close> on \<open>nat \<times> nat \<times> nat\<close>.
\<close>

type_synonym date = "nat \<times> nat \<times> nat"

definition date_gt :: "date \<Rightarrow> date \<Rightarrow> bool" where
  "date_gt a b = (b < a)"

subsection \<open>\<open>str\<close> of integers and UUIDs\<close>

definition digit_char :: "nat \<Rightarrow> char" where
  "digit_char n = (''0123456789abcdef'' ! n)"

fun str_nat :: "nat \<Rightarrow> string" where
  "str_nat n = (if n < 10 then [digit_char n] else str_nat (n div 10) @ [digit_char (n mod 10)])"

declare str_nat.simps [simp del]

definition str_int :: "int \<Rightarrow> string" where
  "str_int i = (if i < 0 then CHR ''-'' # str_nat (nat (- i)) else str_nat (nat i))"

text \<open>
  \<open>str(self.id)\<close> for an automatic primary key: the key is \<open>None\<close> until the row is
  saved, and \<open>str(None)\<close> is the string \<open>None\<close>.
\<close>

definition str_pk :: "int option \<Rightarrow> string" where
  "str_pk v = (case v of None \<Rightarrow> ''None'' | Some i \<Rightarrow> str_int i)"

text \<open>
  \<open>str\<close> of a \<open>uuid.UUID\<close>: the 32 hexadecimal digits of the 128-bit value, most
  significant first, grouped 8-4-4-4-12 with hyphens; \<open>hex_digit u k\<close> is the digit
  of weight \<open>16 ^ k\<close>.
\<close>

type_synonym uuid = "128 word"

definition hex_digit :: "uuid \<Rightarrow> nat \<Rightarrow> char" where
  "hex_digit u k = digit_char (unat (take_bit 4 (drop_bit (4 * k) u)))"

definition str_uuid :: "uuid \<Rightarrow> string" where
  "str_uuid u =
     map (hex_digit u) [31, 30, 29, 28, 27, 26, 25, 24] @ ''-'' @
     map (hex_digit u) [23, 22, 21, 20] @ ''-'' @
     map (hex_digit u) [19, 18, 17, 16] @ ''-'' @
     map (hex_digit u) [15, 14, 13, 12] @ ''-'' @
     map (hex_digit u) [11, 10, 9, 8, 7, 6, 5, 4, 3, 2, 1, 0]"

subsection \<open>\<open>str.format\<close> and \<open>str.join\<close>\<close>

text \<open>
  \<open>str.format\<close> restricted to what the models use: literal text and replacement
  fields \<open>{n}\<close> with an explicit decimal index, each argument already converted with
  \<open>str\<close>. The template is scanned from left to right; \<open>Field n\<close> is the state inside
  a replacement field with the digits read so far. A brace that does not belong to
  such a field is reported as \<open>ValueError\<close>, an index beyond the arguments as
  \<open>IndexError\<close>.
\<close>

datatype scan = Literal | Field "nat option"

definition digit_val :: "char \<Rightarrow> nat option" where
  "digit_val c = map_of (zip ''0123456789'' [0, 1, 2, 3, 4, 5, 6, 7, 8, 9]) c"

fun format_scan :: "scan \<Rightarrow> string \<Rightarrow> string list \<Rightarrow> error + string" where
  "format_scan Literal [] args = Inr []"
| "format_scan (Field n) [] args = Inl ValueError"
| "format_scan Literal (c # cs) args =
     (if c = CHR ''{'' then format_scan (Field None) cs args
      else if c = CHR ''}'' then Inl ValueError
      else (case format_scan Literal cs args of
              Inl e \<Rightarrow> Inl e
            | Inr s \<Rightarrow> Inr (c # s)))"
| "format_scan (Field n) (c # cs) args =
     (if c = CHR ''}'' then
        (case n of
           None \<Rightarrow> Inl ValueError
         | Some i \<Rightarrow>
             if i < length args then
               (case format_scan Literal cs args of
                  Inl e \<Rightarrow> Inl e
                | Inr s \<Rightarrow> Inr (args ! i @ s))
             else Inl IndexError)
      else
        (case digit_val c of
           None \<Rightarrow> Inl ValueError
         | Some d \<Rightarrow>
             format_scan (Field (Some (case n of None \<Rightarrow> d | Some i \<Rightarrow> 10 * i + d))) cs args))"

definition format :: "string \<Rightarrow> string list \<Rightarrow> error + string" where
  "format template args = format_scan Literal template args"


section \<open>The models\<close>

text \<open>
  Each model class is a record of its fields. A nullable column is an \<open>option\<close>; a
  foreign key holds the related object (or \<open>None\<close>), as attribute access on the
  instance gives it; the many-to-many field \<open>genre\<close> holds the rows of
  \<open>self.genre.all()\<close> in the order the query returns them. The borrower is a
  \<open>User\<close> of \<open>django.contrib.auth\<close>, kept as the key of that user. The primary key
  is called \<open>id'\<close> here because \<open>id\<close> is the identity function of HOL.
\<close>

record Genre =
  id' :: "int option"
  name :: string

record Language =
  id' :: "int option"
  name :: string

record Author =
  id' :: "int option"
  first_name :: string
  last_name :: string
  date_of_birth :: "date option"
  date_of_death :: "date option"

record Book =
  id' :: "int option"
  title :: string
  author :: "Author option"
  summary :: string
  isbn :: string
  genre :: "Genre list"
  language :: "Language option"

record BookInstance =
  id' :: uuid
  book :: "Book option"
  imprint :: string
  due_back :: "date option"
  borrower :: "nat option"
  status :: string

subsection \<open>Genre, Language\<close>

definition Genre_str :: "Genre \<Rightarrow> string" where
  "Genre_str self = Genre.name self"

definition Language_str :: "Language \<Rightarrow> string" where
  "Language_str self = Language.name self"

subsection \<open>Book\<close>


definition Book_str :: "Book \<Rightarrow> string" where
  "Book_str self = title self"

text \<open>
  \<open>reverse\<close> resolves a route name and its arguments against the URL configuration
  of the project, which is not part of \<open>models.py\<close>: it is a parameter.
\<close>

type_synonym resolver = "string \<Rightarrow> string list \<Rightarrow> error + string"

definition Book_get_absolute_url :: "resolver \<Rightarrow> Book \<Rightarrow> error + string" where
  "Book_get_absolute_url reverse self = reverse ''book-detail'' [str_pk (Book.id' self)]"

subsection \<open>BookInstance\<close>

text \<open>
  The arguments of \<open>format\<close> are evaluated first: \<open>self.book.title\<close> raises
  \<open>AttributeError\<close> when \<open>self.book\<close> is \<open>None\<close>.
\<close>

definition BookInstance_str :: "BookInstance \<Rightarrow> error + string" where
  "BookInstance_str self =
     (case book self of
        None \<Rightarrow> Inl AttributeError
      | Some b \<Rightarrow> format ''{0} ({1})'' [str_uuid (BookInstance.id' self), title b])"

text \<open>
  \<open>date.today()\<close> reads the clock: the current date is the parameter \<open>today\<close>.
  \<open>self.due_back\<close> is false as a condition exactly when it is \<open>None\<close> (a date
  object is always true), and \<open>and\<close> evaluates the comparison only then.
\<close>

definition is_overdue :: "date \<Rightarrow> BookInstance \<Rightarrow> bool" where
  "is_overdue today self =
     (if (case due_back self of None \<Rightarrow> False | Some d \<Rightarrow> date_gt today d)
      then True else False)"

subsection \<open>Author\<close>

definition Author_get_absolute_url :: "resolver \<Rightarrow> Author \<Rightarrow> error + string" where
  "Author_get_absolute_url reverse self = reverse ''author-detail'' [str_pk (Author.id' self)]"

definition Author_str :: "Author \<Rightarrow> error + string" where
  "Author_str self = format ''{0}, {1}'' [last_name self, first_name self]"

section \<open>Field options and model options\<close>

subsection \<open>The \<open>book\<close> field of BookInstance\<close>

text \<open>
  The options of the foreign key \<open>book\<close>: the related model, what happens to the
  instance when the book is deleted, and whether the column accepts \<open>NULL\<close>.
\<close>

datatype on_delete_action = CASCADE | SET_NULL

record ForeignKey =
  related_model :: string
  on_delete :: on_delete_action
  null :: bool

definition book_field :: ForeignKey where
  "book_field = \<lparr>related_model = ''Book'', on_delete = SET_NULL, null = True\<rparr>"

subsection \<open>The \<open>status\<close> field of BookInstance\<close>

definition LOAN_STATUS :: "(string \<times> string) list" where
  "LOAN_STATUS =
     [(''m'', ''Maintenance''), (''o'', ''On loan''), (''a'', ''Available''), (''r'', ''Reserved'')]"

text \<open>
  The options of a \<open>CharField\<close> that the models set. (\<open>default'\<close> is the option
  \<open>default\<close>, a name that HOL already uses.)
\<close>

record CharField =
  max_length :: nat
  choices :: "(string \<times> string) list option"
  blank :: bool
  default' :: "string option"

definition status_field :: CharField where
  "status_field = \<lparr>max_length = 1, choices = Some LOAN_STATUS, blank = True, default' = Some ''m''\<rparr>"

text \<open>
  Creating an instance: a field that is not given takes the default of its
  declaration (the empty string when a \<open>CharField\<close> declares none). The primary key
  defaults to a fresh \<open>uuid.uuid4()\<close>, so the caller supplies it; \<open>None\<close> for the
  status means that no status was specified.
\<close>

definition get_default :: "CharField \<Rightarrow> string" where
  "get_default f = (case default' f of None \<Rightarrow> [] | Some d \<Rightarrow> d)"

definition BookInstance_init ::
  "uuid \<Rightarrow> Book option \<Rightarrow> string \<Rightarrow> date option \<Rightarrow> nat option \<Rightarrow> string option \<Rightarrow> BookInstance" where
  "BookInstance_init i b imp due bor st =
     \<lparr>BookInstance.id' = i, book = b, imprint = imp, due_back = due, borrower = bor,
      status = (case st of None \<Rightarrow> get_default status_field | Some s \<Rightarrow> s)\<rparr>"

text \<open>
  What Django's field validation (\<open>Model.clean_fields\<close>, \<open>Field.validate\<close>, then the
  length validator) does with a string value. An empty value is accepted when the
  field is declared \<open>blank=True\<close> and rejected otherwise; a value that is not empty
  must be one of the choices, when the field has choices, and must fit
  \<open>max_length\<close>. Neither creating nor saving an instance runs this validation.
\<close>

datatype validation_error = Blank_error | Invalid_choice | Max_length_error

definition CharField_clean :: "CharField \<Rightarrow> string \<Rightarrow> validation_error + string" where
  "CharField_clean f v =
     (if v = [] then (if blank f then Inr v else Inl Blank_error)
      else if (case choices f of None \<Rightarrow> False | Some cs \<Rightarrow> v \<notin> fst ` set cs)
        then Inl Invalid_choice
      else if max_length f < length v then Inl Max_length_error
      else Inr v)"

subsection \<open>\<open>Meta.ordering\<close>\<close>

record Meta =
  ordering' :: "string list"
  permissions :: "(string \<times> string) list"

definition BookInstance_Meta :: Meta where
  "BookInstance_Meta =
     \<lparr>ordering' = [''due_back''],
      permissions = [(''can_mark_returned'', ''Set book as returned'')]\<rparr>"

definition Author_Meta :: Meta where
  "Author_Meta =
     \<lparr>ordering' = [''last_name''],
      permissions = [(''create_author'', ''Can create a new author'')]\<rparr>"

text \<open>
  The database decides two things about \<open>ORDER BY\<close> that the models do not: whether
  \<open>NULL\<close> sorts before or after every other value, and how two strings compare (the
  collation). Both are parameters.
\<close>

record backend =
  nulls_first :: bool
  collation :: "string \<Rightarrow> string \<Rightarrow> bool"

definition null_le :: "bool \<Rightarrow> ('a \<Rightarrow> 'a \<Rightarrow> bool) \<Rightarrow> 'a option \<Rightarrow> 'a option \<Rightarrow> bool" where
  "null_le first le a b =
     (case a of
        None \<Rightarrow> (case b of None \<Rightarrow> True | Some _ \<Rightarrow> first)
      | Some x \<Rightarrow> (case b of None \<Rightarrow> \<not> first | Some y \<Rightarrow> le x y))"

text \<open>
  What sortedness needs of a comparison: any two values are comparable and the
  comparison is transitive. The byte-wise comparison of two strings (the collation
  \<open>BINARY\<close>) is an example of a collation.
\<close>

definition total_preorder :: "('a \<Rightarrow> 'a \<Rightarrow> bool) \<Rightarrow> bool" where
  "total_preorder le = ((\<forall>a b. le a b \<or> le b a) \<and> (\<forall>a b c. le a b \<longrightarrow> le b c \<longrightarrow> le a c))"

fun binary_le :: "string \<Rightarrow> string \<Rightarrow> bool" where
  "binary_le [] t = True"
| "binary_le (c # s) [] = False"
| "binary_le (c # s) (d # t) =
     ((of_char c :: nat) < of_char d \<or> (c = d \<and> binary_le s t))"

text \<open>
  A stable sort of the rows by a comparison \<open>le\<close> (\<open>le a b\<close>: row \<open>a\<close> may come before
  row \<open>b\<close>): rows that compare equal keep the order of the table.
\<close>

fun insert_row :: "('r \<Rightarrow> 'r \<Rightarrow> bool) \<Rightarrow> 'r \<Rightarrow> 'r list \<Rightarrow> 'r list" where
  "insert_row le r [] = [r]"
| "insert_row le r (s # rows) = (if le r s then r # s # rows else s # insert_row le r rows)"

fun sort_rows :: "('r \<Rightarrow> 'r \<Rightarrow> bool) \<Rightarrow> 'r list \<Rightarrow> 'r list" where
  "sort_rows le [] = []"
| "sort_rows le (r # rows) = insert_row le r (sort_rows le rows)"

text \<open>
  \<open>order_by\<close> with a list of field names: a name is looked up among the columns of
  the model (\<open>FieldError\<close> when there is none), a leading \<open>-\<close> reverses the
  comparison. Sorting stably by the last key first and by the first key last
  orders the rows by the first key, ties by the second key, and so on.
\<close>

datatype query_error = FieldError

definition order_term ::
  "(string \<rightharpoonup> ('r \<Rightarrow> 'r \<Rightarrow> bool)) \<Rightarrow> string \<Rightarrow> query_error + ('r \<Rightarrow> 'r \<Rightarrow> bool)" where
  "order_term columns key =
     (case key of
        [] \<Rightarrow> Inl FieldError
      | c # n \<Rightarrow>
          if c = CHR ''-'' then
            (case columns n of None \<Rightarrow> Inl FieldError | Some le \<Rightarrow> Inr (\<lambda>a b. le b a))
          else
            (case columns key of None \<Rightarrow> Inl FieldError | Some le \<Rightarrow> Inr le))"

fun order_by ::
  "(string \<rightharpoonup> ('r \<Rightarrow> 'r \<Rightarrow> bool)) \<Rightarrow> string list \<Rightarrow> 'r list \<Rightarrow> query_error + 'r list" where
  "order_by columns [] rows = Inr rows"
| "order_by columns (key # keys) rows =
     (case order_term columns key of
        Inl e \<Rightarrow> Inl e
      | Inr le \<Rightarrow>
          (case order_by columns keys rows of
             Inl e \<Rightarrow> Inl e
           | Inr sorted_rest \<Rightarrow> Inr (sort_rows le sorted_rest)))"

text \<open>
  The columns that the tables of the two models store themselves (relations to other
  models left out), each with the comparison that \<open>ORDER BY\<close> uses for it.
\<close>

definition BookInstance_columns :: "backend \<Rightarrow> string \<rightharpoonup> (BookInstance \<Rightarrow> BookInstance \<Rightarrow> bool)" where
  "BookInstance_columns db =
     [''id'' \<mapsto> (\<lambda>a b. BookInstance.id' a \<le> BookInstance.id' b),
      ''imprint'' \<mapsto> (\<lambda>a b. collation db (imprint a) (imprint b)),
      ''due_back'' \<mapsto> (\<lambda>a b. null_le (nulls_first db) (\<le>) (due_back a) (due_back b)),
      ''status'' \<mapsto> (\<lambda>a b. collation db (status a) (status b))]"

definition Author_columns :: "backend \<Rightarrow> string \<rightharpoonup> (Author \<Rightarrow> Author \<Rightarrow> bool)" where
  "Author_columns db =
     [''id'' \<mapsto> (\<lambda>a b. null_le (nulls_first db) (\<le>) (Author.id' a) (Author.id' b)),
      ''first_name'' \<mapsto> (\<lambda>a b. collation db (first_name a) (first_name b)),
      ''last_name'' \<mapsto> (\<lambda>a b. collation db (last_name a) (last_name b)),
      ''date_of_birth'' \<mapsto>
        (\<lambda>a b. null_le (nulls_first db) (\<le>) (date_of_birth a) (date_of_birth b)),
      ''date_of_death'' \<mapsto>
        (\<lambda>a b. null_le (nulls_first db) (\<le>) (date_of_death a) (date_of_death b))]"

text \<open>
  A query that lists the rows of a table without an explicit \<open>order_by\<close> is ordered
  by the \<open>ordering\<close> option of the model's \<open>Meta\<close>.
\<close>

definition BookInstance_all :: "backend \<Rightarrow> BookInstance list \<Rightarrow> query_error + BookInstance list" where
  "BookInstance_all db table =
     order_by (BookInstance_columns db) (ordering' BookInstance_Meta) table"

definition Author_all :: "backend \<Rightarrow> Author list \<Rightarrow> query_error + Author list" where
  "Author_all db table = order_by (Author_columns db) (ordering' Author_Meta) table"

section \<open>Auxiliary facts\<close>

subsection \<open>Formatting and dates\<close>

lemma format_two_parenthesised:
  "format ''{0} ({1})'' [a, b] = Inr (a @ '' ('' @ b @ '')'')"
  by (simp add: format_def digit_val_def)

lemma format_two_comma:
  "format ''{0}, {1}'' [a, b] = Inr (a @ '', '' @ b)"
  by (simp add: format_def digit_val_def)

lemma date_gt_irrefl: "\<not> date_gt d d"
  by (simp add: date_gt_def)

subsection \<open>Sorting rows\<close>

lemma mset_insert_row: "mset (insert_row le r rows) = add_mset r (mset rows)"
  by (induction rows) auto

lemma mset_sort_rows: "mset (sort_rows le rows) = mset rows"
  by (induction rows) (auto simp: mset_insert_row)

lemma set_insert_row: "set (insert_row le r rows) = insert r (set rows)"
  by (induction rows) auto

lemma sorted_insert_row:
  assumes "total_preorder le" and "sorted_wrt le rows"
  shows "sorted_wrt le (insert_row le r rows)"
  using assms(2)
proof (induction rows)
  case Nil
  then show ?case by simp
next
  case (Cons s rows)
  show ?case
  proof (cases "le r s")
    case True
    have "\<forall>x\<in>set rows. le r x"
      using Cons.prems True assms(1) unfolding total_preorder_def by auto
    with True Cons.prems show ?thesis by simp
  next
    case False
    then have "le s r" using assms(1) unfolding total_preorder_def by blast
    with False Cons show ?thesis by (auto simp: set_insert_row)
  qed
qed

lemma sorted_sort_rows: "total_preorder le \<Longrightarrow> sorted_wrt le (sort_rows le rows)"
  by (induction rows) (auto simp: sorted_insert_row)

lemma total_preorder_key: "total_preorder le \<Longrightarrow> total_preorder (\<lambda>a b. le (k a) (k b))"
  unfolding total_preorder_def by blast

lemma total_preorder_null_le: "total_preorder le \<Longrightarrow> total_preorder (null_le first le)"
  unfolding total_preorder_def null_le_def
  by (auto split: option.splits)

lemma total_preorder_linorder: "total_preorder ((\<le>) :: 'a::linorder \<Rightarrow> 'a \<Rightarrow> bool)"
  unfolding total_preorder_def by auto

lemma binary_le_total: "binary_le s t \<or> binary_le t s"
  by (induction s t rule: binary_le.induct) (auto simp: not_less)

lemma BookInstance_all_eq:
  "BookInstance_all db table =
     Inr (sort_rows (\<lambda>a b. null_le (nulls_first db) (\<le>) (due_back a) (due_back b)) table)"
  by (simp add: BookInstance_all_def BookInstance_Meta_def BookInstance_columns_def order_term_def)

lemma Author_all_eq:
  "Author_all db table = Inr (sort_rows (\<lambda>a b. collation db (last_name a) (last_name b)) table)"
  by (simp add: Author_all_def Author_Meta_def Author_columns_def order_term_def)

lemma binary_le_trans: "binary_le s t \<Longrightarrow> binary_le t u \<Longrightarrow> binary_le s u"
proof (induction s t arbitrary: u rule: binary_le.induct)
  case (1 t)
  then show ?case by simp
next
  case (2 c s)
  then show ?case by simp
next
  case (3 c s d t)
  then show ?case by (cases u) auto
qed

lemma total_preorder_binary_le: "total_preorder binary_le"
  unfolding total_preorder_def using binary_le_total binary_le_trans by blast

subsection \<open>Validation of the status\<close>

lemma CharField_clean_status:
  "CharField_clean status_field s =
     (if s = '''' \<or> s \<in> {''m'', ''o'', ''a'', ''r''} then Inr s else Inl Invalid_choice)"
  by (auto simp: CharField_clean_def status_field_def LOAN_STATUS_def)

section \<open>The derived properties\<close>

text \<open>
  C1. \<open>is_overdue\<close> is true exactly when \<open>due_back\<close> is not null and the current
  date is strictly greater than it; it is false when \<open>due_back\<close> is null and false
  when \<open>due_back\<close> is the current date.
\<close>

theorem is_overdue_iff:
  "(is_overdue today self \<longleftrightarrow> (\<exists>d. due_back self = Some d \<and> date_gt today d)) \<and>
   (due_back self = None \<longrightarrow> \<not> is_overdue today self) \<and>
   (due_back self = Some today \<longrightarrow> \<not> is_overdue today self)"
  by (auto simp: is_overdue_def date_gt_irrefl split: option.splits)

theorem is_overdue_iff_witness:
  "is_overdue (2021, 3, 1)
     \<lparr>BookInstance.id' = 5, book = None, imprint = ''Penguin'',
      due_back = Some (2021, 2, 28), borrower = Some 7, status = ''o''\<rparr> \<and>
   \<not> is_overdue (2021, 3, 1)
     \<lparr>BookInstance.id' = 5, book = None, imprint = ''Penguin'',
      due_back = None, borrower = None, status = ''a''\<rparr> \<and>
   \<not> is_overdue (2021, 3, 1)
     \<lparr>BookInstance.id' = 5, book = None, imprint = ''Penguin'',
      due_back = Some (2021, 3, 1), borrower = Some 7, status = ''o''\<rparr>"
  using
    is_overdue_iff [of "(2021, 3, 1)"
      "\<lparr>BookInstance.id' = 5, book = None, imprint = ''Penguin'',
        due_back = Some (2021, 2, 28), borrower = Some 7, status = ''o''\<rparr>"]
    is_overdue_iff [of "(2021, 3, 1)"
      "\<lparr>BookInstance.id' = 5, book = None, imprint = ''Penguin'',
        due_back = None, borrower = None, status = ''a''\<rparr>"]
    is_overdue_iff [of "(2021, 3, 1)"
      "\<lparr>BookInstance.id' = 5, book = None, imprint = ''Penguin'',
        due_back = Some (2021, 3, 1), borrower = Some 7, status = ''o''\<rparr>"]
  by (simp add: date_gt_def)

text \<open>
  C2. As stated (for every BookInstance, \<open>__str__\<close> returns the id, a space and the
  title of the book in parentheses) the property fails for an instance without a
  book: the call raises instead of returning.
\<close>

theorem BookInstance_str_without_book_raises:
  "BookInstance_str
     \<lparr>BookInstance.id' = 5, book = None, imprint = ''Penguin'',
      due_back = None, borrower = None, status = ''m''\<rparr> = Inl AttributeError"
  by (simp add: BookInstance_str_def)

text \<open>
  C2, amended. For every BookInstance whose book is not null, \<open>__str__\<close> returns the
  id of the instance (as \<open>str\<close> prints a UUID), a space, and the title of the book
  in parentheses.
\<close>

theorem BookInstance_str_with_book:
  "book self = Some b \<Longrightarrow>
   BookInstance_str self = Inr (str_uuid (BookInstance.id' self) @ '' ('' @ title b @ '')'')"
  by (simp add: BookInstance_str_def format_two_parenthesised)

theorem BookInstance_str_with_book_witness:
  "BookInstance_str
     \<lparr>BookInstance.id' = 0x123e4567e89b12d3a456426614174000,
      book = Some \<lparr>Book.id' = Some 1, title = ''Dune'', author = None, summary = ''Sand'',
                    isbn = ''9780441013593'', genre = [], language = None\<rparr>,
      imprint = ''Ace'', due_back = None, borrower = None, status = ''a''\<rparr> =
   Inr ''123e4567-e89b-12d3-a456-426614174000 (Dune)''"
proof -
  have "str_uuid 0x123e4567e89b12d3a456426614174000 = ''123e4567-e89b-12d3-a456-426614174000''"
    by code_simp
  then show ?thesis
    using BookInstance_str_with_book
      [of "\<lparr>BookInstance.id' = 0x123e4567e89b12d3a456426614174000,
            book = Some \<lparr>Book.id' = Some 1, title = ''Dune'', author = None, summary = ''Sand'',
                          isbn = ''9780441013593'', genre = [], language = None\<rparr>,
            imprint = ''Ace'', due_back = None, borrower = None, status = ''a''\<rparr>"
          "\<lparr>Book.id' = Some 1, title = ''Dune'', author = None, summary = ''Sand'',
            isbn = ''9780441013593'', genre = [], language = None\<rparr>"]
    by simp
qed

text \<open>
  C3. \<open>BookInstance.__str__\<close> is partial: the schema permits a null book (the field
  is declared \<open>null=True\<close> with \<open>on_delete=SET_NULL\<close>); when the book is null the call
  fails with the \<open>AttributeError\<close> of reading \<open>.title\<close> from \<open>None\<close>, and it returns
  a string exactly when the book is not null.
\<close>

theorem BookInstance_str_partial:
  "null book_field \<and> on_delete book_field = SET_NULL \<and>
   (book self = None \<longrightarrow> BookInstance_str self = Inl AttributeError) \<and>
   ((\<exists>s. BookInstance_str self = Inr s) \<longleftrightarrow> book self \<noteq> None)"
  by (auto simp: book_field_def BookInstance_str_def format_two_parenthesised
      split: option.splits)

theorem BookInstance_str_partial_witness:
  "BookInstance_str
     \<lparr>BookInstance.id' = 9, book = None, imprint = ''Ace'',
      due_back = Some (2021, 3, 1), borrower = None, status = ''o''\<rparr> = Inl AttributeError \<and>
   (\<exists>s. BookInstance_str
     \<lparr>BookInstance.id' = 9,
      book = Some \<lparr>Book.id' = Some 1, title = ''Dune'', author = None, summary = ''Sand'',
                    isbn = ''9780441013593'', genre = [], language = None\<rparr>,
      imprint = ''Ace'', due_back = None, borrower = None, status = ''a''\<rparr> = Inr s)"
  using
    BookInstance_str_partial
      [of "\<lparr>BookInstance.id' = 9, book = None, imprint = ''Ace'',
            due_back = Some (2021, 3, 1), borrower = None, status = ''o''\<rparr>"]
    BookInstance_str_partial
      [of "\<lparr>BookInstance.id' = 9,
            book = Some \<lparr>Book.id' = Some 1, title = ''Dune'', author = None, summary = ''Sand'',
                          isbn = ''9780441013593'', genre = [], language = None\<rparr>,
            imprint = ''Ace'', due_back = None, borrower = None, status = ''a''\<rparr>"]
  by simp

text \<open>
  C5. \<open>get_absolute_url\<close> of a Book is the resolution of the route \<open>book-detail\<close>
  with the single argument \<open>str(id)\<close>; that of an Author is the resolution of the
  route \<open>author-detail\<close> with the single argument \<open>str(id)\<close>.
\<close>

theorem get_absolute_url_routes:
  "Book_get_absolute_url reverse b = reverse ''book-detail'' [str_pk (Book.id' b)] \<and>
   Author_get_absolute_url reverse a = reverse ''author-detail'' [str_pk (Author.id' a)]"
  by (simp add: Book_get_absolute_url_def Author_get_absolute_url_def)

theorem get_absolute_url_routes_witness:
  "Book_get_absolute_url (\<lambda>n args. Inr (''/catalog/'' @ n @ ''/'' @ concat args))
     \<lparr>Book.id' = Some 42, title = ''Dune'', author = None, summary = ''Sand'',
      isbn = ''9780441013593'', genre = [], language = None\<rparr> =
     Inr ''/catalog/book-detail/42'' \<and>
   Author_get_absolute_url (\<lambda>n args. Inr (''/catalog/'' @ n @ ''/'' @ concat args))
     \<lparr>Author.id' = Some 7, first_name = ''Isaac'', last_name = ''Asimov'',
      date_of_birth = None, date_of_death = None\<rparr> =
     Inr ''/catalog/author-detail/7''"
proof -
  have "str_pk (Some 42) = ''42''" and "str_pk (Some 7) = ''7''"
    by code_simp+
  then show ?thesis
    using get_absolute_url_routes
      [of "\<lambda>n args. Inr (''/catalog/'' @ n @ ''/'' @ concat args)"
          "\<lparr>Book.id' = Some 42, title = ''Dune'', author = None, summary = ''Sand'',
            isbn = ''9780441013593'', genre = [], language = None\<rparr>"
          "\<lparr>Author.id' = Some 7, first_name = ''Isaac'', last_name = ''Asimov'',
            date_of_birth = None, date_of_death = None\<rparr>"]
    by simp
qed

text \<open>
  C6. \<open>Author.__str__\<close> returns the last name, a comma, a space and the first name.
\<close>

theorem Author_str_format:
  "Author_str self = Inr (last_name self @ '', '' @ first_name self)"
  by (simp add: Author_str_def format_two_comma)

theorem Author_str_format_witness:
  "Author_str
     \<lparr>Author.id' = Some 7, first_name = ''Isaac'', last_name = ''Asimov'',
      date_of_birth = None, date_of_death = None\<rparr> = Inr ''Asimov, Isaac''"
  using Author_str_format
    [of "\<lparr>Author.id' = Some 7, first_name = ''Isaac'', last_name = ''Asimov'',
          date_of_birth = None, date_of_death = None\<rparr>"]
  by simp

text \<open>
  C7. \<open>__str__\<close> of a Genre is its name, of a Language its name, of a Book its title,
  with nothing added.
\<close>

theorem plain_str:
  "Genre_str g = Genre.name g \<and> Language_str l = Language.name l \<and> Book_str b = title b"
  by (simp add: Genre_str_def Language_str_def Book_str_def)

theorem plain_str_witness:
  "Genre_str \<lparr>Genre.id' = Some 1, name = ''Poetry''\<rparr> = ''Poetry'' \<and>
   Language_str \<lparr>Language.id' = Some 1, name = ''English''\<rparr> = ''English'' \<and>
   Book_str
     \<lparr>Book.id' = Some 42, title = ''Dune'', author = None, summary = ''Sand'',
      isbn = ''9780441013593'', genre = [], language = None\<rparr> = ''Dune''"
  using plain_str
    [of "\<lparr>Genre.id' = Some 1, name = ''Poetry''\<rparr>"
        "\<lparr>Language.id' = Some 1, name = ''English''\<rparr>"
        "\<lparr>Book.id' = Some 42, title = ''Dune'', author = None, summary = ''Sand'',
          isbn = ''9780441013593'', genre = [], language = None\<rparr>"]
  by simp



section \<open>Default ordering and the status field\<close>

text \<open>
  C9. The default order of a listing is fixed by the schema: listing the
  BookInstance rows without an explicit ordering returns all of them sorted
  ascending by \<open>due_back\<close> (among rows with a due date, an earlier date never comes
  after a later one; the database places the rows without a due date), and listing
  the Author rows returns all of them sorted ascending by \<open>last_name\<close> in the
  collation of the database.
\<close>

theorem default_ordering:
  "(\<exists>rows. BookInstance_all db copies = Inr rows \<and> mset rows = mset copies \<and>
      sorted_wrt (\<lambda>a b. null_le (nulls_first db) (\<le>) (due_back a) (due_back b)) rows \<and>
      (\<forall>i j d e. i < j \<and> j < length rows \<and>
          due_back (rows ! i) = Some d \<and> due_back (rows ! j) = Some e \<longrightarrow> \<not> date_gt d e)) \<and>
   (total_preorder (collation db) \<longrightarrow>
      (\<exists>rows. Author_all db authors = Inr rows \<and> mset rows = mset authors \<and>
         sorted_wrt (\<lambda>a b. collation db (last_name a) (last_name b)) rows))"
proof (intro conjI impI)
  let ?le = "\<lambda>a b. null_le (nulls_first db) (\<le>) (due_back a) (due_back b)"
  let ?rows = "sort_rows ?le copies"
  have "total_preorder (null_le (nulls_first db) ((\<le>) :: date \<Rightarrow> date \<Rightarrow> bool))"
    by (rule total_preorder_null_le) (rule total_preorder_linorder)
  then have tp: "total_preorder ?le"
    by (rule total_preorder_key)
  have sorted: "sorted_wrt ?le ?rows"
    using tp by (rule sorted_sort_rows)
  have asc: "\<not> date_gt d e"
    if "i < j \<and> j < length ?rows \<and> due_back (?rows ! i) = Some d \<and> due_back (?rows ! j) = Some e"
    for i j d e
  proof -
    from sorted have "\<forall>i j. i < j \<longrightarrow> j < length ?rows \<longrightarrow> ?le (?rows ! i) (?rows ! j)"
      by (simp only: sorted_wrt_iff_nth_less)
    with that have "?le (?rows ! i) (?rows ! j)"
      by blast
    with that show ?thesis by (simp add: null_le_def date_gt_def not_less)
  qed
  show "\<exists>rows. BookInstance_all db copies = Inr rows \<and> mset rows = mset copies \<and>
      sorted_wrt ?le rows \<and>
      (\<forall>i j d e. i < j \<and> j < length rows \<and>
          due_back (rows ! i) = Some d \<and> due_back (rows ! j) = Some e \<longrightarrow> \<not> date_gt d e)"
    using sorted asc by (intro exI [of _ ?rows]) (simp add: BookInstance_all_eq mset_sort_rows)
next
  assume "total_preorder (collation db)"
  then have "total_preorder (\<lambda>a b. collation db (last_name a) (last_name b))"
    by (rule total_preorder_key)
  then have "sorted_wrt (\<lambda>a b. collation db (last_name a) (last_name b))
      (sort_rows (\<lambda>a b. collation db (last_name a) (last_name b)) authors)"
    by (rule sorted_sort_rows)
  then show "\<exists>rows. Author_all db authors = Inr rows \<and> mset rows = mset authors \<and>
         sorted_wrt (\<lambda>a b. collation db (last_name a) (last_name b)) rows"
    by (simp add: Author_all_eq mset_sort_rows)
qed

theorem default_ordering_witness:
  "(\<exists>rows.
      BookInstance_all \<lparr>nulls_first = False, collation = binary_le\<rparr>
        [\<lparr>BookInstance.id' = 1, book = None, imprint = ''Ace'', due_back = None,
           borrower = None, status = ''a''\<rparr>,
         \<lparr>BookInstance.id' = 2, book = None, imprint = ''Ace'', due_back = Some (2021, 3, 1),
           borrower = Some 7, status = ''o''\<rparr>,
         \<lparr>BookInstance.id' = 3, book = None, imprint = ''Ace'', due_back = Some (2021, 2, 28),
           borrower = Some 8, status = ''o''\<rparr>] = Inr rows \<and>
      rows =
        [\<lparr>BookInstance.id' = 3, book = None, imprint = ''Ace'', due_back = Some (2021, 2, 28),
           borrower = Some 8, status = ''o''\<rparr>,
         \<lparr>BookInstance.id' = 2, book = None, imprint = ''Ace'', due_back = Some (2021, 3, 1),
           borrower = Some 7, status = ''o''\<rparr>,
         \<lparr>BookInstance.id' = 1, book = None, imprint = ''Ace'', due_back = None,
           borrower = None, status = ''a''\<rparr>] \<and>
      sorted_wrt (\<lambda>a b. null_le False (\<le>) (due_back a) (due_back b)) rows) \<and>
   (\<exists>rows.
      Author_all \<lparr>nulls_first = False, collation = binary_le\<rparr>
        [\<lparr>Author.id' = Some 1, first_name = ''Frank'', last_name = ''Herbert'',
           date_of_birth = Some (1920, 10, 8), date_of_death = Some (1986, 2, 11)\<rparr>,
         \<lparr>Author.id' = Some 2, first_name = ''Isaac'', last_name = ''Asimov'',
           date_of_birth = None, date_of_death = None\<rparr>] = Inr rows \<and>
      rows =
        [\<lparr>Author.id' = Some 2, first_name = ''Isaac'', last_name = ''Asimov'',
           date_of_birth = None, date_of_death = None\<rparr>,
         \<lparr>Author.id' = Some 1, first_name = ''Frank'', last_name = ''Herbert'',
           date_of_birth = Some (1920, 10, 8), date_of_death = Some (1986, 2, 11)\<rparr>] \<and>
      sorted_wrt (\<lambda>a b. binary_le (last_name a) (last_name b)) rows)"
proof -
  let ?db = "\<lparr>nulls_first = False, collation = binary_le\<rparr>"
  have tp: "total_preorder (collation ?db)"
    by (simp add: total_preorder_binary_le)
  note inst = default_ordering
     [of ?db
       "[\<lparr>BookInstance.id' = 1, book = None, imprint = ''Ace'', due_back = None,
           borrower = None, status = ''a''\<rparr>,
         \<lparr>BookInstance.id' = 2, book = None, imprint = ''Ace'', due_back = Some (2021, 3, 1),
           borrower = Some 7, status = ''o''\<rparr>,
         \<lparr>BookInstance.id' = 3, book = None, imprint = ''Ace'', due_back = Some (2021, 2, 28),
           borrower = Some 8, status = ''o''\<rparr>]"
       "[\<lparr>Author.id' = Some 1, first_name = ''Frank'', last_name = ''Herbert'',
           date_of_birth = Some (1920, 10, 8), date_of_death = Some (1986, 2, 11)\<rparr>,
         \<lparr>Author.id' = Some 2, first_name = ''Isaac'', last_name = ''Asimov'',
           date_of_birth = None, date_of_death = None\<rparr>]"]
  from inst tp show ?thesis
    by (simp add: BookInstance_all_eq Author_all_eq null_le_def)
qed

text \<open>
  C4. As stated (the status of every BookInstance is one of the four codes
  \<open>m\<close>, \<open>o\<close>, \<open>a\<close>, \<open>r\<close>) the property fails: the field is declared \<open>blank=True\<close>,
  so an instance created with the empty status passes the validation of the field
  and its status is none of the four codes.
\<close>

theorem blank_status_is_accepted:
  "CharField_clean status_field
     (status (BookInstance_init 5 None ''Ace'' None None (Some ''''))) = Inr '''' \<and>
   status (BookInstance_init 5 None ''Ace'' None None (Some '''')) \<notin> {''m'', ''o'', ''a'', ''r''}"
  by (simp add: CharField_clean_def status_field_def BookInstance_init_def)

text \<open>
  C4, amended. The choices of the status field are exactly the four
  one-character codes \<open>m\<close> (Maintenance), \<open>o\<close> (On loan), \<open>a\<close> (Available) and
  \<open>r\<close> (Reserved); a newly created BookInstance that does not specify a status
  has status \<open>m\<close>, and one that specifies a status has that status; the
  validation of the field accepts a status exactly when it is empty or one of the
  four codes, and rejects any other as an invalid choice; \<open>__str__\<close> and
  \<open>is_overdue\<close> do not depend on the status (they are functions of the instance that
  return a value and assign no field).
\<close>

theorem status_choices_and_default:
  "choices status_field = Some LOAN_STATUS \<and>
   map fst LOAN_STATUS = [''m'', ''o'', ''a'', ''r''] \<and>
   map snd LOAN_STATUS = [''Maintenance'', ''On loan'', ''Available'', ''Reserved''] \<and>
   status (BookInstance_init i b imp due bor None) = ''m'' \<and>
   status (BookInstance_init i b imp due bor (Some s)) = s \<and>
   CharField_clean status_field s =
     (if s = '''' \<or> s \<in> {''m'', ''o'', ''a'', ''r''} then Inr s else Inl Invalid_choice) \<and>
   BookInstance_str (self\<lparr>status := s\<rparr>) = BookInstance_str self \<and>
   is_overdue today (self\<lparr>status := s\<rparr>) = is_overdue today self"
proof (intro conjI)
  show "choices status_field = Some LOAN_STATUS"
    by (simp add: status_field_def)
  show "map fst LOAN_STATUS = [''m'', ''o'', ''a'', ''r'']"
    by (simp add: LOAN_STATUS_def)
  show "map snd LOAN_STATUS = [''Maintenance'', ''On loan'', ''Available'', ''Reserved'']"
    by (simp add: LOAN_STATUS_def)
  show "status (BookInstance_init i b imp due bor None) = ''m''"
    by (simp add: BookInstance_init_def get_default_def status_field_def)
  show "status (BookInstance_init i b imp due bor (Some s)) = s"
    by (simp add: BookInstance_init_def)
  show "CharField_clean status_field s =
     (if s = '''' \<or> s \<in> {''m'', ''o'', ''a'', ''r''} then Inr s else Inl Invalid_choice)"
    by (rule CharField_clean_status)
  show "BookInstance_str (self\<lparr>status := s\<rparr>) = BookInstance_str self"
    by (simp add: BookInstance_str_def split: option.splits)
  show "is_overdue today (self\<lparr>status := s\<rparr>) = is_overdue today self"
    by (simp add: is_overdue_def)
qed

theorem status_choices_and_default_witness:
  "status (BookInstance_init 5 None ''Ace'' None None None) = ''m'' \<and>
   status (BookInstance_init 5 None ''Ace'' None None (Some ''o'')) = ''o'' \<and>
   CharField_clean status_field ''o'' = Inr ''o'' \<and>
   CharField_clean status_field ''x'' = Inl Invalid_choice \<and>
   CharField_clean status_field '''' = Inr ''''"
  using
    status_choices_and_default [of 5 None "''Ace''" None None "''o''"]
    status_choices_and_default [of 5 None "''Ace''" None None "''x''"]
    status_choices_and_default [of 5 None "''Ace''" None None "''''"]
  by simp

section \<open>Determinism of the derived properties\<close>



end
